theory Spec2Isabelle
  imports Complex_Main "HOL-Library.Multiset"
begin

section \<open>The weather series and the derived per-polygon value (useWeatherData.ts)\<close>

text \<open>
  JavaScript numbers are modelled as mathematical reals, hour indices and millisecond
  timestamps as integers. A \<open>WeatherDataPoint\<close> has one string field and three numeric
  ones; \<open>point[field]\<close> with \<open>field: keyof WeatherDataPoint\<close> therefore yields a string
  or a number, and the code tests \<open>typeof value === 'number'\<close>.
\<close>

record WeatherDataPoint =
  time :: string
  temperature_2m :: real
  relative_humidity_2m :: real
  wind_speed_10m :: real

datatype field_key = Time | Temperature_2m | Relative_humidity_2m | Wind_speed_10m

datatype js_value = JNum real | JStr string

fun point_field :: "WeatherDataPoint \<Rightarrow> field_key \<Rightarrow> js_value" where
  "point_field p Time = JStr (time p)"
| "point_field p Temperature_2m = JNum (temperature_2m p)"
| "point_field p Relative_humidity_2m = JNum (relative_humidity_2m p)"
| "point_field p Wind_speed_10m = JNum (wind_speed_10m p)"

text \<open>\<open>typeof value === 'number' ? value : 0\<close>\<close>

fun number_or_zero :: "js_value \<Rightarrow> real" where
  "number_or_zero (JNum v) = v"
| "number_or_zero (JStr s) = 0"

text \<open>
  \<open>Array.prototype.slice(start, end)\<close> on integer arguments: a negative index counts
  from the end of the array, both indices are cut to \<open>[0, length]\<close>, and the result is
  empty when the end does not exceed the start.
\<close>

definition slice_js :: "'a list \<Rightarrow> int \<Rightarrow> int \<Rightarrow> 'a list" where
  "slice_js xs start fin =
     (let len = int (length xs);
          k = (if start < 0 then max (len + start) 0 else min start len);
          final = (if fin < 0 then max (len + fin) 0 else min fin len)
      in take (nat (final - k)) (drop (nat k) xs))"

text \<open>
  The centroid that \<open>getPolygonAverage\<close> computes: the sums of \<open>coord[0]\<close> and \<open>coord[1]\<close>
  over the ring, each divided by the number of vertices. \<open>None\<close> stands for NaN: a
  coordinate array too short to have the component reads \<open>undefined\<close>, and an empty ring
  divides \<open>0\<close> by \<open>0\<close>.
\<close>

definition js_index :: "real list \<Rightarrow> nat \<Rightarrow> real option" where
  "js_index c i = (if i < length c then Some (c ! i) else None)"

fun js_add :: "real option \<Rightarrow> real option \<Rightarrow> real option" where
  "js_add (Some a) (Some b) = Some (a + b)"
| "js_add _ _ = None"

definition centroid_of :: "real list list \<Rightarrow> real option \<times> real option" where
  "centroid_of coordinates =
     (let acc = foldl (\<lambda>acc coord. (js_add (fst acc) (js_index coord 0),
                                      js_add (snd acc) (js_index coord 1)))
                      (Some 0, Some 0) coordinates;
          n = length coordinates;
          avg = (\<lambda>s. case s of None \<Rightarrow> None
                       | Some v \<Rightarrow> if n = 0 then None else Some (v / real n))
      in (avg (fst acc), avg (snd acc)))"

definition getPolygonAverage ::
  "WeatherDataPoint list \<Rightarrow> real list list \<Rightarrow> field_key \<Rightarrow> int \<Rightarrow> int \<Rightarrow> real" where
  "getPolygonAverage data coordinates field timeStart timeEnd =
     (if length data = 0 then 0
      else
        let centroid = centroid_of coordinates;
            startIndex = max 0 timeStart;
            endIndex = min (int (length data) - 1) timeEnd;
            relevantData = slice_js data startIndex (endIndex + 1)
        in if length relevantData = 0 then 0
           else
             let sum = foldl (\<lambda>acc point. acc + number_or_zero (point_field point field))
                             0 relevantData
             in sum / real (length relevantData))"

definition getValueAtTime ::
  "WeatherDataPoint list \<Rightarrow> real list list \<Rightarrow> field_key \<Rightarrow> int \<Rightarrow> real" where
  "getValueAtTime data coordinates field timeIndex =
     (if length data = 0 \<or> timeIndex < 0 \<or> timeIndex \<ge> int (length data) then 0
      else
        let dataPoint = data ! nat timeIndex;
            v = point_field dataPoint field
        in number_or_zero v)"

text \<open>
  The Range-mode value as the specification words it: the arithmetic mean of the samples
  over the inclusive index interval \<open>[clamp(start,0,N-1), clamp(end,0,N-1)]\<close>, and \<open>0\<close>
  for an empty slice.
\<close>

definition clamp :: "int \<Rightarrow> int \<Rightarrow> int \<Rightarrow> int" where
  "clamp x lo hi = max lo (min x hi)"

definition spec_range_value :: "WeatherDataPoint list \<Rightarrow> field_key \<Rightarrow> int \<Rightarrow> int \<Rightarrow> real" where
  "spec_range_value data field start fin =
     (let n = int (length data);
          lo = clamp start 0 (n - 1);
          hi = clamp fin 0 (n - 1);
          samples = map (\<lambda>i. number_or_zero (point_field (data ! nat i) field))
                        (filter (\<lambda>i. 0 \<le> i \<and> i < n) [lo..hi])
      in if samples = [] then 0 else sum_list samples / real (length samples))"


section \<open>The cache key and the fetch with its expiring cache (useWeatherData.ts)\<close>

record WeatherParams =
  latitude :: real
  longitude :: real
  startDate :: string
  endDate :: string
  hourly :: "string list option"

text \<open>A \<open>CacheEntry\<close>; its field \<open>data\<close> is named \<open>entry_data\<close> here.\<close>

record CacheEntry =
  entry_data :: "WeatherDataPoint list"
  timestamp :: int
  params :: string

definition CACHE_DURATION :: int where
  "CACHE_DURATION = 30 * 60 * 1000"

text \<open>\<open>Array.prototype.join\<close> on an array of strings.\<close>

fun join_js :: "string \<Rightarrow> string list \<Rightarrow> string" where
  "join_js sep [] = []"
| "join_js sep [x] = x"
| "join_js sep (x # y # ys) = x @ sep @ join_js sep (y # ys)"

text \<open>
  \<open>params.hourly?.join(',') || 'default'\<close>: the joined list, or \<open>'default'\<close> when the list
  is absent or the joined string is empty.
\<close>

definition hourly_part :: "WeatherParams \<Rightarrow> string" where
  "hourly_part p =
     (case hourly p of
        None \<Rightarrow> ''default''
      | Some fs \<Rightarrow> (if join_js '','' fs = [] then ''default'' else join_js '','' fs))"

text \<open>
  The template literal of \<open>generateCacheKey\<close>. The conversion of a JavaScript number to
  a string is a builtin of the language: it is the parameter \<open>num_str\<close>.
\<close>

definition generateCacheKey :: "(real \<Rightarrow> string) \<Rightarrow> WeatherParams \<Rightarrow> string" where
  "generateCacheKey num_str p =
     num_str (latitude p) @ ''_'' @ num_str (longitude p) @ ''_'' @ startDate p @ ''_'' @
     endDate p @ ''_'' @ hourly_part p"

text \<open>Decimal digits of a natural number (an array length, an HTTP status, a clock value).\<close>

fun show_nat :: "nat \<Rightarrow> string" where
  "show_nat n =
     (if n < 10 then [''0123456789'' ! n]
      else show_nat (n div 10) @ [''0123456789'' ! (n mod 10)])"

declare show_nat.simps [simp del]

definition show_int :: "int \<Rightarrow> string" where
  "show_int i = (if i < 0 then ''-'' @ show_nat (nat (- i)) else show_nat (nat i))"

text \<open>
  What the external request yields. The provider's \<open>hourly\<close> object has the \<open>time\<close>
  column and, possibly, one column per metric whose entries may be \<open>null\<close>.
  \<^item> \<open>Rejected m\<close>: \<open>fetch\<close> threw (a network error); \<open>m\<close> is the message of the thrown
    \<open>Error\<close>, \<open>None\<close> when the thrown value is not an \<open>Error\<close>.
  \<^item> \<open>HttpResponse status body\<close>: a response arrived; \<open>response.ok\<close> holds exactly for
    the statuses 200 to 299.
  \<^item> the body \<open>Unusable m\<close>: reading the JSON or transforming it threw, with \<open>m\<close> as
    above; \<open>NoHourly\<close>: the JSON has no \<open>hourly\<close> member; \<open>Hourly h\<close>: it has one.
\<close>

record HourlyPayload =
  hourly_time :: "string list"
  hourly_temperature_2m :: "real option list option"
  hourly_relative_humidity_2m :: "real option list option"
  hourly_wind_speed_10m :: "real option list option"

datatype api_body = Unusable "string option" | NoHourly | Hourly HourlyPayload

datatype fetch_outcome = Rejected "string option" | HttpResponse nat api_body

text \<open>\<open>column?.[index] || 0\<close>: an absent column, an absent entry, \<open>null\<close> and \<open>0\<close> all give 0.\<close>

definition column_at :: "real option list option \<Rightarrow> nat \<Rightarrow> real" where
  "column_at col index =
     (case col of
        None \<Rightarrow> 0
      | Some xs \<Rightarrow> (if index < length xs then (case xs ! index of None \<Rightarrow> 0 | Some v \<Rightarrow> v) else 0))"

definition transformData :: "HourlyPayload \<Rightarrow> WeatherDataPoint list" where
  "transformData h =
     map (\<lambda>(index, t).
            \<lparr>time = t,
             temperature_2m = column_at (hourly_temperature_2m h) index,
             relative_humidity_2m = column_at (hourly_relative_humidity_2m h) index,
             wind_speed_10m = column_at (hourly_wind_speed_10m h) index\<rparr>)
         (enumerate 0 (hourly_time h))"

datatype effect =
    Toast string string
  | Request "(string \<times> string) list"

text \<open>
  The body of the \<open>try\<close> block up to the transformed series: \<open>Inl\<close> is the thrown
  exception (its message, when it is an \<open>Error\<close>), \<open>Inr\<close> the transformed data.
\<close>

definition request_series :: "fetch_outcome \<Rightarrow> string option + WeatherDataPoint list" where
  "request_series out =
     (case out of
        Rejected m \<Rightarrow> Inl m
      | HttpResponse status body \<Rightarrow>
          (if \<not> (200 \<le> status \<and> status \<le> 299)
           then Inl (Some (''Weather API error: '' @ show_nat status))
           else (case body of
                   Unusable m \<Rightarrow> Inl m
                 | NoHourly \<Rightarrow> Inl (Some ''No hourly data received from API'')
                 | Hourly h \<Rightarrow> Inr (transformData h))))"

text \<open>
  The state of the hook, and what one call of \<open>fetchWeatherData\<close> reads from outside:
  the two builtin conversions, the two readings of the clock (\<open>Date.now()\<close> at the cache
  check and when the entry is stored), the outcome of the request, and the series that
  \<open>generateMockData\<close> returns (it draws random numbers).
\<close>

record hook_state =
  data :: "WeatherDataPoint list"
  loading :: bool
  error :: "string option"
  cache :: "string \<rightharpoonup> CacheEntry"

record call_env =
  num_str :: "real \<Rightarrow> string"
  json_stringify :: "WeatherParams \<Rightarrow> string"
  now_check :: int
  now_store :: int
  outcome :: fetch_outcome
  mockData :: "WeatherDataPoint list"

definition request_url :: "(real \<Rightarrow> string) \<Rightarrow> WeatherParams \<Rightarrow> (string \<times> string) list" where
  "request_url str p =
     (let hourlyParams = (case hourly p of
                            None \<Rightarrow> [''temperature_2m'', ''relative_humidity_2m'', ''wind_speed_10m'']
                          | Some fs \<Rightarrow> fs)
      in [(''latitude'', str (latitude p)),
          (''longitude'', str (longitude p)),
          (''start_date'', startDate p),
          (''end_date'', endDate p),
          (''hourly'', join_js '','' hourlyParams),
          (''timezone'', ''auto'')])"

definition fetchWeatherData :: "call_env \<Rightarrow> WeatherParams \<Rightarrow> hook_state \<Rightarrow> hook_state \<times> effect list" where
  "fetchWeatherData env p st =
     (let cacheKey = generateCacheKey (num_str env) p;
          cachedEntry = cache st cacheKey
      in if cachedEntry \<noteq> None \<and> now_check env - timestamp (the cachedEntry) < CACHE_DURATION
         then (st\<lparr>data := entry_data (the cachedEntry), loading := False, error := None\<rparr>,
               [Toast ''Data Loaded from Cache''
                      ''Using cached weather data for the selected region.''])
         else
           (case request_series (outcome env) of
              Inr transformedData \<Rightarrow>
                (st\<lparr>data := transformedData, loading := False, error := None,
                    cache := (cache st)(cacheKey \<mapsto>
                      \<lparr>entry_data = transformedData, timestamp = now_store env,
                       params = json_stringify env p\<rparr>)\<rparr>,
                 [Request (request_url (num_str env) p),
                  Toast ''Weather Data Loaded''
                        (''Fetched '' @ show_nat (length transformedData) @
                         '' data points from Open-Meteo API.'')])
            | Inl err \<Rightarrow>
                (let errorMessage = (case err of Some m \<Rightarrow> m
                                     | None \<Rightarrow> ''Failed to fetch weather data'')
                 in (st\<lparr>data := mockData env, loading := False, error := Some errorMessage\<rparr>,
                     [Request (request_url (num_str env) p),
                      Toast ''Error Loading Weather Data'' errorMessage,
                      Toast ''Using Mock Data''
                            ''Switched to simulated weather data for demonstration.'']))))"

text \<open>
  The effect that runs on mount: the saved object (\<open>None\<close> when the storage has no item
  or it cannot be parsed) is filtered by age and becomes the cache.
\<close>

definition loadCache :: "int \<Rightarrow> (string \<rightharpoonup> CacheEntry) option \<Rightarrow> hook_state \<Rightarrow> hook_state" where
  "loadCache now savedCache st =
     (case savedCache of
        None \<Rightarrow> st
      | Some parsedCache \<Rightarrow>
          st\<lparr>cache := (\<lambda>key. case parsedCache key of
                                 None \<Rightarrow> None
                               | Some entry \<Rightarrow>
                                   if now - timestamp entry < CACHE_DURATION then Some entry
                                   else None)\<rparr>)"

section \<open>The data source registry (DataSourceSidebar)\<close>

text \<open>
  A threshold's fields \<open>value\<close> and \<open>color\<close> are named \<open>threshold_value\<close> and
  \<open>threshold_color\<close>; a data source's \<open>id\<close> and \<open>name\<close> are \<open>source_id\<close> and
  \<open>source_name\<close>. The \<open>icon\<close> (a rendered element) is left out.
\<close>

record Threshold =
  threshold_value :: real
  threshold_color :: string
  operator :: string
  label :: string

record Thresholds =
  low :: Threshold
  medium :: Threshold
  high :: Threshold

record DataSource =
  source_id :: string
  source_name :: string
  field :: string
  unit :: string
  description :: string
  thresholds :: Thresholds
  isActive :: bool

definition availableDataSources :: "DataSource list" where
  "availableDataSources =
     [\<lparr>source_id = ''temperature_2m'', source_name = ''Temperature'', field = ''temperature_2m'',
       unit = [char_of (194::nat), char_of (176::nat), CHR ''C''],
       description = ''Air temperature at 2 meters above ground'',
       thresholds =
         \<lparr>low = \<lparr>threshold_value = 10, threshold_color = ''#22c55e'', operator = ''<'', label = ''Cold''\<rparr>,
          medium = \<lparr>threshold_value = 25, threshold_color = ''#f59e0b'', operator = ''<'', label = ''Moderate''\<rparr>,
          high = \<lparr>threshold_value = 25, threshold_color = ''#ef4444'', operator = ''>='', label = ''Hot''\<rparr>\<rparr>,
       isActive = True\<rparr>,
      \<lparr>source_id = ''relative_humidity_2m'', source_name = ''Humidity'', field = ''relative_humidity_2m'',
       unit = ''%'',
       description = ''Relative humidity at 2 meters above ground'',
       thresholds =
         \<lparr>low = \<lparr>threshold_value = 30, threshold_color = ''#22c55e'', operator = ''<'', label = ''Dry''\<rparr>,
          medium = \<lparr>threshold_value = 70, threshold_color = ''#f59e0b'', operator = ''<'', label = ''Comfortable''\<rparr>,
          high = \<lparr>threshold_value = 70, threshold_color = ''#ef4444'', operator = ''>='', label = ''Humid''\<rparr>\<rparr>,
       isActive = False\<rparr>,
      \<lparr>source_id = ''wind_speed_10m'', source_name = ''Wind Speed'', field = ''wind_speed_10m'',
       unit = ''km/h'',
       description = ''Wind speed at 10 meters above ground'',
       thresholds =
         \<lparr>low = \<lparr>threshold_value = 10, threshold_color = ''#22c55e'', operator = ''<'', label = ''Calm''\<rparr>,
          medium = \<lparr>threshold_value = 30, threshold_color = ''#f59e0b'', operator = ''<'', label = ''Breezy''\<rparr>,
          high = \<lparr>threshold_value = 30, threshold_color = ''#ef4444'', operator = ''>='', label = ''Windy''\<rparr>\<rparr>,
       isActive = False\<rparr>]"

record sidebar_state =
  activeDataSources :: "DataSource list"
  editingIndex :: "nat option"
  showLegend :: bool

definition initial_sidebar :: sidebar_state where
  "initial_sidebar =
     \<lparr>activeDataSources = [availableDataSources ! 0], editingIndex = None, showLegend = True\<rparr>"

definition addDataSource :: "sidebar_state \<Rightarrow> sidebar_state" where
  "addDataSource st =
     (if length (activeDataSources st) < 3
      then (case find (\<lambda>ds. \<not> list_ex (\<lambda>active. source_id active = source_id ds)
                                        (activeDataSources st))
                      availableDataSources of
              Some nextInactive \<Rightarrow>
                st\<lparr>activeDataSources := activeDataSources st @ [nextInactive\<lparr>isActive := True\<rparr>]\<rparr>
            | None \<Rightarrow> st)
      else st)"

text \<open>\<open>activeDataSources.filter((_, i) => i !== index)\<close>, then \<open>setEditingIndex(null)\<close>.\<close>

definition removeDataSource :: "nat \<Rightarrow> sidebar_state \<Rightarrow> sidebar_state" where
  "removeDataSource index st =
     (let newSources = map snd (filter (\<lambda>(i, _). i \<noteq> index) (enumerate 0 (activeDataSources st)))
      in st\<lparr>activeDataSources := newSources, editingIndex := None\<rparr>)"

text \<open>
  The remove button of row \<open>index\<close>: the sidebar renders it under the guard
  \<open>activeDataSources.length > 1\<close> and only for the rows of the list, and its click
  handler is \<open>removeDataSource(index)\<close>. Without the button nothing happens.
\<close>

definition remove_button_click :: "nat \<Rightarrow> sidebar_state \<Rightarrow> sidebar_state" where
  "remove_button_click index st =
     (if index < length (activeDataSources st) \<and> length (activeDataSources st) > 1
      then removeDataSource index st
      else st)"

section \<open>The recolor pass (Index page)\<close>

text \<open>
  A polygon; its fields \<open>id\<close>, \<open>name\<close> and the optional \<open>value\<close> are named
  \<open>polygon_id\<close>, \<open>polygon_name\<close> and \<open>polygon_value\<close>.
\<close>

record Polygon =
  polygon_id :: string
  polygon_name :: string
  coordinates :: "real list list"
  dataSource :: string
  color :: string
  polygon_value :: "real option"

text \<open>\<open>Math.round\<close> rounds to the nearest integer, a half upwards.\<close>

definition math_round :: "real \<Rightarrow> real" where
  "math_round x = of_int \<lfloor>x + 1 / 2\<rfloor>"

text \<open>The value that \<open>updatePolygonColors\<close> computes for a polygon.\<close>

definition avgValue_of :: "bool \<Rightarrow> WeatherDataPoint list \<Rightarrow> Polygon \<Rightarrow> int \<Rightarrow> int \<Rightarrow> real" where
  "avgValue_of isSingleTime series polygon startHour endHour =
     (if isSingleTime
      then getValueAtTime series (coordinates polygon) Temperature_2m startHour
      else getPolygonAverage series (coordinates polygon) Temperature_2m startHour endHour)"

definition updatePolygonColors ::
  "bool \<Rightarrow> WeatherDataPoint list \<Rightarrow> int \<Rightarrow> int \<Rightarrow> Polygon list \<Rightarrow> Polygon list" where
  "updatePolygonColors isSingleTime series startHour endHour prevPolygons =
     map (\<lambda>polygon.
            let avgValue = avgValue_of isSingleTime series polygon startHour endHour;
                c = (if avgValue < 10 then ''#22c55e''
                     else if avgValue < 25 then ''#f59e0b''
                     else ''#ef4444'')
            in polygon\<lparr>polygon_value := Some (math_round (avgValue * 10) / 10), color := c\<rparr>)
         prevPolygons"

text \<open>
  The color assignment as the specification words it: the ordered threshold list of the
  polygon's assigned data source is evaluated against the value, the first threshold
  whose \<open>(value, comparator, thresholdValue)\<close> predicate is satisfied gives the color,
  and a neutral default (the purple a new polygon has) is used when none matches. The
  comparators are the five that the sidebar offers.
\<close>

definition spec_satisfied :: "real \<Rightarrow> string \<Rightarrow> real \<Rightarrow> bool" where
  "spec_satisfied v comparator thresholdValue =
     (if comparator = ''<'' then v < thresholdValue
      else if comparator = ''<='' then v \<le> thresholdValue
      else if comparator = ''>'' then v > thresholdValue
      else if comparator = ''>='' then v \<ge> thresholdValue
      else if comparator = ''='' then v = thresholdValue
      else False)"

definition threshold_list :: "DataSource \<Rightarrow> Threshold list" where
  "threshold_list ds = [low (thresholds ds), medium (thresholds ds), high (thresholds ds)]"

definition spec_neutral_default :: string where
  "spec_neutral_default = ''#8b5cf6''"

definition spec_first_match :: "Threshold list \<Rightarrow> real \<Rightarrow> string" where
  "spec_first_match ts v =
     (case find (\<lambda>t. spec_satisfied v (operator t) (threshold_value t)) ts of
        Some t \<Rightarrow> threshold_color t
      | None \<Rightarrow> spec_neutral_default)"

definition spec_polygon_color :: "DataSource list \<Rightarrow> Polygon \<Rightarrow> real \<Rightarrow> string" where
  "spec_polygon_color registry polygon v =
     (case find (\<lambda>ds. field ds = dataSource polygon) registry of
        Some ds \<Rightarrow> spec_first_match (threshold_list ds) v
      | None \<Rightarrow> spec_neutral_default)"

record index_state =
  polygons :: "Polygon list"
  selectedPolygons :: "string list"

text \<open>
  \<open>handlePolygonCreate\<close>: the polygon is appended and selected. (The handler then asks
  for the weather series at the polygon's centroid; the request is not part of this
  state.)
\<close>

definition handlePolygonCreate :: "Polygon \<Rightarrow> index_state \<Rightarrow> index_state" where
  "handlePolygonCreate polygon st =
     st\<lparr>polygons := polygons st @ [polygon],
        selectedPolygons := selectedPolygons st @ [polygon_id polygon]\<rparr>"

section \<open>The drawing session (MapView)\<close>

record map_state =
  isDrawing :: bool
  currentPolygon :: "real list list"
  selectedPolygon :: "string option"
  editingPolygonName :: "string option"
  newPolygonName :: string

definition startDrawing :: "map_state \<Rightarrow> map_state \<times> effect list" where
  "startDrawing st =
     (st\<lparr>isDrawing := True, currentPolygon := []\<rparr>,
      [Toast ''Drawing Mode''
             ''Click on the map to create polygon points. Right-click to finish.''])"

text \<open>
  \<open>finishDrawing\<close>, given the clock and the polygons the component was rendered with.
  The second component is the polygon handed to \<open>onPolygonCreate\<close>, if any.
\<close>

definition finishDrawing ::
  "int \<Rightarrow> Polygon list \<Rightarrow> map_state \<Rightarrow> map_state \<times> Polygon option \<times> effect list" where
  "finishDrawing now polys st =
     (if length (currentPolygon st) < 3
      then (st, None, [Toast ''Invalid Polygon'' ''A polygon needs at least 3 points.''])
      else
        let newPolygon =
              \<lparr>polygon_id = ''polygon-'' @ show_int now,
               polygon_name = (if newPolygonName st \<noteq> [] then newPolygonName st
                               else ''Region '' @ show_nat (length polys + 1)),
               coordinates = currentPolygon st @ [currentPolygon st ! 0],
               dataSource = ''temperature_2m'',
               color = ''#8b5cf6'',
               polygon_value = None\<rparr>
        in (st\<lparr>isDrawing := False, currentPolygon := [], newPolygonName := []\<rparr>,
            Some newPolygon,
            [Toast ''Polygon Created'' ''New analysis region added to the map.'']))"

text \<open>
  The page wires \<open>onPolygonCreate\<close> to \<open>handlePolygonCreate\<close> and passes its polygons to
  the map: one press of the Finish button on both states.
\<close>

definition finish_button ::
  "int \<Rightarrow> map_state \<times> index_state \<Rightarrow> (map_state \<times> index_state) \<times> effect list" where
  "finish_button now s =
     (case finishDrawing now (polygons (snd s)) (fst s) of
        (st', None, fx) \<Rightarrow> ((st', snd s), fx)
      | (st', Some polygon, fx) \<Rightarrow> ((st', handlePolygonCreate polygon (snd s)), fx))"

section \<open>Playback (TimelineSlider)\<close>

text \<open>
  The slider's state. \<open>currentValue\<close> is a one-element array and \<open>rangeValue\<close> a
  two-element array in the source; they are an integer and a pair here.
\<close>

record slider_state =
  isRangeMode :: bool
  isPlaying :: bool
  currentValue :: int
  rangeValue :: "int \<times> int"
  playSpeed :: nat

definition maxHours :: int where
  "maxHours = 720"

definition initial_slider :: slider_state where
  "initial_slider =
     \<lparr>isRangeMode = True, isPlaying = False, currentValue = 360, rangeValue = (336, 384),
      playSpeed = 1000\<rparr>"

text \<open>
  One firing of the interval's callback. The interval exists only while \<open>isPlaying\<close>
  holds: the effect returns at once otherwise, and its cleanup clears the interval.
\<close>

definition tick :: "slider_state \<Rightarrow> slider_state" where
  "tick st =
     (if \<not> isPlaying st then st
      else if isRangeMode st
      then (let prev = rangeValue st;
                rangeSize = snd prev - fst prev;
                newStart = min (fst prev + 1) (maxHours - rangeSize);
                newEnd = min (snd prev + 1) maxHours
            in if newEnd \<ge> maxHours then st\<lparr>isPlaying := False\<rparr>
               else st\<lparr>rangeValue := (newStart, newEnd)\<rparr>)
      else (let prev = currentValue st;
                newValue = min (prev + 1) maxHours
            in if newValue \<ge> maxHours then st\<lparr>isPlaying := False\<rparr>
               else st\<lparr>currentValue := newValue\<rparr>))"

text \<open>The window that the slider reports to the page (its first effect).\<close>

definition window :: "slider_state \<Rightarrow> int \<times> int" where
  "window st = (if isRangeMode st then rangeValue st else (currentValue st, currentValue st))"

section \<open>Sample data\<close>

text \<open>A three-hour series and a closed square ring, for the concrete instances below.\<close>

definition sample_point :: "real \<Rightarrow> real \<Rightarrow> WeatherDataPoint" where
  "sample_point t h =
     \<lparr>time = ''2024-01-01T00:00'', temperature_2m = t, relative_humidity_2m = h,
      wind_speed_10m = 12\<rparr>"

definition sample_series :: "WeatherDataPoint list" where
  "sample_series = [sample_point 5 40, sample_point 7 50, sample_point 9 60]"

definition sample_ring :: "real list list" where
  "sample_ring = [[0, 0], [1, 0], [1, 1], [0, 0]]"

definition sample_params :: "string list option \<Rightarrow> WeatherParams" where
  "sample_params fs =
     \<lparr>latitude = 0, longitude = 0, startDate = ''2024-01-01'', endDate = ''2024-01-31'',
      hourly = fs\<rparr>"

definition sample_drawing :: "real list list \<Rightarrow> map_state" where
  "sample_drawing pts =
     \<lparr>isDrawing = True, currentPolygon = pts, selectedPolygon = None,
      editingPolygonName = None, newPolygonName = []\<rparr>"

definition empty_index :: index_state where
  "empty_index = \<lparr>polygons = [], selectedPolygons = []\<rparr>"

definition sample_polygon :: "string \<Rightarrow> Polygon" where
  "sample_polygon ds =
     \<lparr>polygon_id = ''polygon-1'', polygon_name = ''Region 1'', coordinates = sample_ring,
      dataSource = ds, color = ''#8b5cf6'', polygon_value = None\<rparr>"

text \<open>
  A call environment whose number conversion is right for the number 0 (the latitude
  and longitude of \<open>sample_params\<close>), and hook states with an empty cache and with one
  entry for \<open>sample_params None\<close> stored at a given time.
\<close>

definition sample_env :: "int \<Rightarrow> fetch_outcome \<Rightarrow> call_env" where
  "sample_env now out =
     \<lparr>num_str = (\<lambda>x. ''0''), json_stringify = (\<lambda>p. ''{}''), now_check = now,
      now_store = now, outcome = out, mockData = sample_series\<rparr>"

definition empty_hook :: hook_state where
  "empty_hook = \<lparr>data = [], loading = False, error = None, cache = Map.empty\<rparr>"

definition sample_entry :: "int \<Rightarrow> CacheEntry" where
  "sample_entry ts = \<lparr>entry_data = sample_series, timestamp = ts, params = ''{}''\<rparr>"

definition cached_hook :: "int \<Rightarrow> hook_state" where
  "cached_hook ts =
     empty_hook\<lparr>cache := [generateCacheKey (\<lambda>x. ''0'') (sample_params None) \<mapsto> sample_entry ts]\<rparr>"

definition playing_slider :: "bool \<Rightarrow> int \<Rightarrow> int \<Rightarrow> slider_state" where
  "playing_slider range_mode a b =
     initial_slider\<lparr>isRangeMode := range_mode, isPlaying := True, currentValue := a,
                    rangeValue := (a, b)\<rparr>"

section \<open>Theorems\<close>

subsection \<open>Helper facts\<close>

lemma foldl_add_sum_list:
  "foldl (\<lambda>acc x. acc + g x) (a::real) xs = a + sum_list (map g xs)"
  by (induction xs arbitrary: a) simp_all

lemma upto_samples:
  "0 \<le> lo \<Longrightarrow> hi < int (length xs) \<Longrightarrow>
   map (\<lambda>i. g (xs ! nat i)) [lo..hi] = map g (take (nat (hi + 1 - lo)) (drop (nat lo) xs))"
proof (induction lo hi rule: upto.induct)
  case (1 i j)
  show ?case
  proof (cases "i \<le> j")
    case True
    then have lt: "nat i < length xs" using 1 by linarith
    have n: "nat (j + 1 - i) = Suc (nat (j + 1 - (i + 1)))" using True by linarith
    have d: "drop (nat i) xs = xs ! nat i # drop (nat (i + 1)) xs"
      using lt 1(2) by (simp add: Cons_nth_drop_Suc nat_add_distrib)
    have ih: "map (\<lambda>i. g (xs ! nat i)) [i + 1..j] =
              map g (take (nat (j + 1 - (i + 1))) (drop (nat (i + 1)) xs))"
      using 1 True by simp
    have "[i..j] = i # [i + 1..j]" using True by (simp add: upto_rec1)
    then show ?thesis using ih by (simp only: n d list.map take_Suc_Cons)
  next
    case False
    then show ?thesis by simp
  qed
qed

lemma filter_upto_all:
  "0 \<le> lo \<Longrightarrow> hi < n \<Longrightarrow> filter (\<lambda>i. 0 \<le> i \<and> i < n) [lo..hi] = [lo..hi]"
  by (rule filter_True) auto

lemma remove_index:
  "map snd (filter (\<lambda>(j, _). j \<noteq> n + i) (enumerate n xs)) = take i xs @ drop (Suc i) xs"
proof (induction xs arbitrary: n i)
  case Nil
  then show ?case by simp
next
  case (Cons x xs)
  show ?case
  proof (cases i)
    case 0
    have "filter (\<lambda>(j, _). j \<noteq> n) (enumerate (Suc n) xs) = enumerate (Suc n) xs"
      by (rule filter_True) (auto simp: in_set_enumerate_eq)
    then show ?thesis using 0 by simp
  next
    case (Suc k)
    have "map snd (filter (\<lambda>(j, _). j \<noteq> Suc n + k) (enumerate (Suc n) xs)) =
          take k xs @ drop (Suc k) xs"
      by (rule Cons.IH)
    then show ?thesis using Suc by simp
  qed
qed

lemma removeDataSource_sources:
  "activeDataSources (removeDataSource i st) =
   take i (activeDataSources st) @ drop (Suc i) (activeDataSources st)"
  using remove_index [of 0 i "activeDataSources st"] by (simp add: removeDataSource_def)

lemma fetch_reads_cache_only:
  "cache st' = cache st \<Longrightarrow> fetchWeatherData env q st' = fetchWeatherData env q st"
  by (cases st; cases st') (simp add: fetchWeatherData_def Let_def split: sum.splits option.splits)

lemma tick_advance:
  "isPlaying s \<Longrightarrow> snd (window s) + 1 < 720 \<Longrightarrow>
   window (tick s) = (fst (window s) + 1, snd (window s) + 1) \<and> isPlaying (tick s)"
  by (cases "isRangeMode s") (auto simp: tick_def window_def maxHours_def Let_def min_def)

lemma tick_stop:
  "snd (window s) + 1 \<ge> 720 \<Longrightarrow> window (tick s) = window s \<and> \<not> isPlaying (tick s)"
  by (cases "isRangeMode s") (auto simp: tick_def window_def maxHours_def Let_def min_def)

lemma tick_mode: "isRangeMode (tick st) = isRangeMode st"
  by (simp add: tick_def Let_def)

lemma tick_inv:
  "0 \<le> fst (window st) \<and> fst (window st) \<le> snd (window st) \<and> snd (window st) \<le> 720 \<Longrightarrow>
   0 \<le> fst (window (tick st)) \<and> fst (window (tick st)) \<le> snd (window (tick st)) \<and>
   snd (window (tick st)) \<le> 720"
  by (auto simp: tick_def window_def maxHours_def Let_def min_def)

lemma ticks_inv:
  "0 \<le> fst (window st) \<and> fst (window st) \<le> snd (window st) \<and> snd (window st) \<le> 720 \<Longrightarrow>
   0 \<le> fst (window ((tick ^^ n) st)) \<and>
   fst (window ((tick ^^ n) st)) \<le> snd (window ((tick ^^ n) st)) \<and>
   snd (window ((tick ^^ n) st)) \<le> 720"
  by (induction n) (simp_all add: tick_inv)

lemma ticks_advance:
  "isPlaying st \<Longrightarrow> snd (window st) + int n < 720 \<Longrightarrow>
   window ((tick ^^ n) st) = (fst (window st) + int n, snd (window st) + int n) \<and>
   isPlaying ((tick ^^ n) st)"
proof (induction n)
  case 0
  then show ?case by simp
next
  case (Suc n)
  let ?s = "(tick ^^ n) st"
  have ih: "window ?s = (fst (window st) + int n, snd (window st) + int n)"
    "isPlaying ?s" using Suc by simp_all
  have "snd (window ?s) + 1 < 720" using ih Suc.prems by simp
  then have "window (tick ?s) = (fst (window ?s) + 1, snd (window ?s) + 1) \<and> isPlaying (tick ?s)"
    using ih(2) by (rule tick_advance [rotated])
  then show ?case using ih(1) by (simp add: algebra_simps)
qed

lemma ticks_stop:
  assumes "isPlaying st" "snd (window st) \<le> 719"
  shows "window ((tick ^^ (nat (720 - snd (window st)))) st) =
           (fst (window st) + (719 - snd (window st)), 719) \<and>
         \<not> isPlaying ((tick ^^ (nat (720 - snd (window st)))) st)"
proof -
  define n where "n = nat (719 - snd (window st))"
  have n: "nat (720 - snd (window st)) = Suc n" using assms by (simp add: n_def)
  let ?s = "(tick ^^ n) st"
  have "snd (window st) + int n < 720" using assms by (simp add: n_def)
  then have a: "window ?s = (fst (window st) + int n, snd (window st) + int n)" "isPlaying ?s"
    using ticks_advance [OF assms(1), of n] by simp_all
  have "snd (window ?s) + 1 \<ge> 720" using a assms by (simp add: n_def)
  then have "window (tick ?s) = window ?s \<and> \<not> isPlaying (tick ?s)" by (rule tick_stop)
  then show ?thesis using a assms unfolding n by (simp add: n_def)
qed

subsection \<open>The Range-mode value\<close>

text \<open>
  C2 (as the code has it). For a window with \<open>0 \<le> start \<le> end \<le> 720\<close>, the Range-mode
  value is the arithmetic mean of the samples over the inclusive interval
  \<open>[clamp(start,0,N-1), clamp(end,0,N-1)]\<close> whenever \<open>start \<le> N - 1\<close>; the code cuts the
  start only from below (\<open>Math.max(0, timeStart)\<close>), so for \<open>start > N - 1\<close> (and for
  the empty series) the slice is empty and the value is 0.
\<close>

theorem range_value_is_mean_when_start_in_series:
  assumes "0 \<le> start" "start \<le> fin" "fin \<le> 720"
  shows "getPolygonAverage d c f start fin =
         (if start < int (length d) then spec_range_value d f start fin else 0)"
proof (cases "start < int (length d)")
  case True
  let ?n = "int (length d)"
  let ?hi = "min (?n - 1) fin"
  let ?g = "\<lambda>p. number_or_zero (point_field p f)"
  let ?sl = "take (nat (?hi + 1 - start)) (drop (nat start) d)"
  have lo: "clamp start 0 (?n - 1) = start" using True assms by (simp add: clamp_def)
  have hi: "clamp fin 0 (?n - 1) = ?hi" using True assms
    by (cases "d = []") (simp_all add: clamp_def min_def max_def)
  have sl: "slice_js d (max 0 start) (?hi + 1) = ?sl"
    using True assms by (cases "d = []") (simp_all add: slice_js_def Let_def min_def max_def)
  have ne: "?sl \<noteq> []"
  proof -
    have "d \<noteq> []" using True assms by auto
    then show ?thesis using True assms by (auto simp: min_def)
  qed
  have sm: "map (\<lambda>i. ?g (d ! nat i)) (filter (\<lambda>i. 0 \<le> i \<and> i < ?n) [start..?hi]) = map ?g ?sl"
    using assms True by (simp add: filter_upto_all upto_samples [where g = ?g])
  have "spec_range_value d f start fin = sum_list (map ?g ?sl) / real (length ?sl)"
    unfolding spec_range_value_def Let_def lo hi sm using ne by simp
  moreover have "getPolygonAverage d c f start fin = sum_list (map ?g ?sl) / real (length ?sl)"
    unfolding getPolygonAverage_def Let_def sl foldl_add_sum_list using ne True by auto
  ultimately show ?thesis using True by simp
next
  case False
  then have "slice_js d (max 0 start) (min (int (length d) - 1) fin + 1) = []"
    using assms by (simp add: slice_js_def Let_def min_def max_def)
  then show ?thesis using False
    by (simp add: getPolygonAverage_def Let_def)
qed

theorem range_value_is_mean_when_start_in_series_witness:
  "(0::int) \<le> 1 \<and> (1::int) \<le> 3 \<and> (3::int) \<le> 720 \<and>
   getPolygonAverage sample_series sample_ring Temperature_2m 1 3 =
     spec_range_value sample_series Temperature_2m 1 3 \<and>
   spec_range_value sample_series Temperature_2m 1 3 = 8"
  using range_value_is_mean_when_start_in_series
          [of 1 3 sample_series sample_ring Temperature_2m]
  by (simp add: sample_series_def sample_point_def spec_range_value_def clamp_def upto_rec1)

text \<open>
  The claim as the specification states it fails for a window that starts past the end
  of the series: with three samples and the window \<open>(3, 3)\<close> the clamped interval is
  \<open>[2, 2]\<close>, whose mean is the last sample 9, and the code returns 0.
\<close>

theorem range_value_start_past_series_counterexample:
  "(0::int) \<le> 3 \<and> (3::int) \<le> 720 \<and>
   spec_range_value sample_series Temperature_2m 3 3 = 9 \<and>
   getPolygonAverage sample_series sample_ring Temperature_2m 3 3 = 0"
  by (simp add: sample_series_def sample_point_def spec_range_value_def clamp_def
        getPolygonAverage_def slice_js_def upto_rec1)

subsection \<open>Range mode on a degenerate window\<close>

text \<open>
  C7. For every series, field and hour index \<open>s\<close> with \<open>0 \<le> s \<le> 720\<close>, the Range-mode
  value of the window \<open>(s, s)\<close> is the Instant-mode value at \<open>s\<close>; both are 0 when \<open>s\<close>
  is past the series or the series is empty.
\<close>

theorem degenerate_range_equals_instant:
  assumes "0 \<le> s" "s \<le> 720"
  shows "getPolygonAverage d c f s s = getValueAtTime d c f s"
proof (cases "s < int (length d)")
  case True
  then have n: "nat s < length d" using assms by linarith
  have "slice_js d (max 0 s) (min (int (length d) - 1) s + 1) = [d ! nat s]"
    using True assms n
    by (simp add: slice_js_def Let_def min_def max_def Cons_nth_drop_Suc [symmetric])
  then show ?thesis using True assms
    by (simp add: getPolygonAverage_def getValueAtTime_def Let_def)
next
  case False
  then have "slice_js d (max 0 s) (min (int (length d) - 1) s + 1) = []"
    using assms by (simp add: slice_js_def Let_def min_def max_def)
  then show ?thesis using False assms
    by (simp add: getPolygonAverage_def getValueAtTime_def Let_def)
qed

theorem degenerate_range_equals_instant_witness:
  "(0::int) \<le> 1 \<and> (1::int) \<le> 720 \<and>
   getPolygonAverage sample_series sample_ring Temperature_2m 1 1 = 7 \<and>
   getValueAtTime sample_series sample_ring Temperature_2m 1 = 7 \<and>
   getPolygonAverage sample_series sample_ring Temperature_2m 5 5 = 0 \<and>
   getPolygonAverage [] sample_ring Temperature_2m 0 0 = getValueAtTime [] sample_ring Temperature_2m 0"
  using degenerate_range_equals_instant [of 1 sample_series sample_ring Temperature_2m]
    degenerate_range_equals_instant [of 5 sample_series sample_ring Temperature_2m]
    degenerate_range_equals_instant [of 0 "[]" sample_ring Temperature_2m]
  by (simp add: getValueAtTime_def sample_series_def sample_point_def)

subsection \<open>The value does not depend on the geometry\<close>

text \<open>
  C10. For every series, field, time index or pair of time bounds, and any two
  coordinate lists, the Instant-mode and the Range-mode computations return the same
  result for both lists: the centroid computed in the Range-mode function is not used.
\<close>

theorem value_independent_of_coordinates:
  "getPolygonAverage d c1 f s e = getPolygonAverage d c2 f s e \<and>
   getValueAtTime d c1 f s = getValueAtTime d c2 f s"
  by (simp add: getPolygonAverage_def getValueAtTime_def Let_def)

subsection \<open>The cache key\<close>

text \<open>
  C3 (as the code has it). The key is a function of latitude, longitude, start date, end
  date and the field list in the order given (the list is joined, never sorted): two
  parameter records that agree on the first four have the same key exactly when their
  joined field lists (\<open>'default'\<close> for an absent or empty one) are the same string, and
  so whenever their field lists are equal.
\<close>

theorem cache_key_equal_iff_joined_fields_equal:
  assumes "latitude p = latitude q" "longitude p = longitude q"
    "startDate p = startDate q" "endDate p = endDate q"
  shows "(generateCacheKey str p = generateCacheKey str q \<longleftrightarrow> hourly_part p = hourly_part q) \<and>
         (hourly p = hourly q \<longrightarrow> generateCacheKey str p = generateCacheKey str q)"
  using assms by (simp add: generateCacheKey_def hourly_part_def)

theorem cache_key_equal_iff_joined_fields_equal_witness:
  "latitude (sample_params (Some [''a'', ''b''])) = latitude (sample_params (Some [''a,b''])) \<and>
   longitude (sample_params (Some [''a'', ''b''])) = longitude (sample_params (Some [''a,b''])) \<and>
   startDate (sample_params (Some [''a'', ''b''])) = startDate (sample_params (Some [''a,b''])) \<and>
   endDate (sample_params (Some [''a'', ''b''])) = endDate (sample_params (Some [''a,b''])) \<and>
   hourly_part (sample_params (Some [''a'', ''b''])) = hourly_part (sample_params (Some [''a,b''])) \<and>
   generateCacheKey (\<lambda>x. ''0'') (sample_params (Some [''a'', ''b''])) =
     generateCacheKey (\<lambda>x. ''0'') (sample_params (Some [''a,b'']))"
  using cache_key_equal_iff_joined_fields_equal
          [of "sample_params (Some [''a'', ''b''])" "sample_params (Some [''a,b''])" "\<lambda>x. ''0''"]
  by (simp add: sample_params_def hourly_part_def)

text \<open>
  Two records that agree on the four scalar parameters and whose field lists are
  permutations of each other get different keys.
\<close>

theorem cache_key_permuted_fields_counterexample:
  "mset [''temperature_2m'', ''wind_speed_10m''] = mset [''wind_speed_10m'', ''temperature_2m''] \<and>
   generateCacheKey (\<lambda>x. ''0'') (sample_params (Some [''temperature_2m'', ''wind_speed_10m''])) \<noteq>
   generateCacheKey (\<lambda>x. ''0'') (sample_params (Some [''wind_speed_10m'', ''temperature_2m'']))"
  by (simp add: generateCacheKey_def hourly_part_def sample_params_def)

subsection \<open>Removing a data source\<close>

text \<open>
  C4 (as the code has it). \<open>removeDataSource\<close> itself refuses nothing; the sidebar
  offers the remove button only while more than one source is active. Through the
  button the list of active sources never becomes empty: with exactly one active source
  the state is unchanged, with more than one the list loses exactly the chosen row, and
  adding a source keeps the list non-empty too.
\<close>

theorem remove_button_keeps_a_source:
  "(length (activeDataSources st) = 1 \<longrightarrow> remove_button_click i st = st) \<and>
   (activeDataSources st \<noteq> [] \<longrightarrow> activeDataSources (remove_button_click i st) \<noteq> []) \<and>
   (i < length (activeDataSources st) \<and> 1 < length (activeDataSources st) \<longrightarrow>
      activeDataSources (remove_button_click i st) =
        take i (activeDataSources st) @ drop (Suc i) (activeDataSources st) \<and>
      length (activeDataSources (remove_button_click i st)) = length (activeDataSources st) - 1) \<and>
   (activeDataSources st \<noteq> [] \<longrightarrow> activeDataSources (addDataSource st) \<noteq> [])"
  by (auto simp: remove_button_click_def removeDataSource_sources addDataSource_def
           split: option.splits)

theorem remove_button_keeps_a_source_witness:
  "length (activeDataSources initial_sidebar) = 1 \<and>
   remove_button_click 0 initial_sidebar = initial_sidebar \<and>
   activeDataSources initial_sidebar \<noteq> [] \<and>
   activeDataSources (remove_button_click 0 initial_sidebar) \<noteq> [] \<and>
   map source_id (activeDataSources (addDataSource initial_sidebar)) =
     [''temperature_2m'', ''relative_humidity_2m''] \<and>
   map source_id (activeDataSources (remove_button_click 0 (addDataSource initial_sidebar))) =
     [''relative_humidity_2m''] \<and>
   map source_id (activeDataSources (remove_button_click 1 (addDataSource initial_sidebar))) =
     [''temperature_2m'']"
  using remove_button_keeps_a_source [of initial_sidebar 0]
    remove_button_keeps_a_source [of "addDataSource initial_sidebar" 0]
    remove_button_keeps_a_source [of "addDataSource initial_sidebar" 1]
  by (simp add: initial_sidebar_def addDataSource_def availableDataSources_def)

text \<open>
  Called in the initial state, which has exactly one active source, the removal
  operation leaves no active source.
\<close>

theorem removeDataSource_last_source_counterexample:
  "length (activeDataSources initial_sidebar) = 1 \<and>
   activeDataSources (removeDataSource 0 initial_sidebar) = []"
  by (simp add: removeDataSource_sources initial_sidebar_def)

subsection \<open>Finishing a drawing\<close>

text \<open>
  C8. \<open>finishDrawing\<close> with exactly 2 pending points creates no polygon and leaves the
  whole state of the session as it was (still drawing, the same pending points); with
  exactly 3 pending points it creates exactly one polygon, whose ring has 4 vertices,
  the first equal to the last, and the session is idle again with no pending points.
\<close>

theorem finishDrawing_two_and_three_points:
  "(length (currentPolygon st) = 2 \<longrightarrow>
      finishDrawing now (polygons ist) st =
        (st, None, [Toast ''Invalid Polygon'' ''A polygon needs at least 3 points.'']) \<and>
      fst (finish_button now (st, ist)) = (st, ist)) \<and>
   (length (currentPolygon st) = 3 \<longrightarrow>
      (\<exists>st' p fx. finishDrawing now (polygons ist) st = (st', Some p, fx) \<and>
         fst (finish_button now (st, ist)) = (st', handlePolygonCreate p ist) \<and>
         polygons (handlePolygonCreate p ist) = polygons ist @ [p] \<and>
         length (coordinates p) = 4 \<and>
         coordinates p ! 0 = coordinates p ! 3 \<and>
         take 3 (coordinates p) = currentPolygon st \<and>
         \<not> isDrawing st' \<and> currentPolygon st' = []))"
proof (intro conjI impI)
  assume two: "length (currentPolygon st) = 2"
  show a: "finishDrawing now (polygons ist) st =
        (st, None, [Toast ''Invalid Polygon'' ''A polygon needs at least 3 points.''])"
    using two by (simp add: finishDrawing_def)
  show "fst (finish_button now (st, ist)) = (st, ist)"
    by (simp add: finish_button_def a)
next
  assume three: "length (currentPolygon st) = 3"
  define p where "p = \<lparr>polygon_id = ''polygon-'' @ show_int now,
               polygon_name = (if newPolygonName st \<noteq> [] then newPolygonName st
                               else ''Region '' @ show_nat (length (polygons ist) + 1)),
               coordinates = currentPolygon st @ [currentPolygon st ! 0],
               dataSource = ''temperature_2m'',
               color = ''#8b5cf6'',
               polygon_value = None\<rparr>"
  define st' where "st' = st\<lparr>isDrawing := False, currentPolygon := [], newPolygonName := []\<rparr>"
  have f: "finishDrawing now (polygons ist) st =
        (st', Some p, [Toast ''Polygon Created'' ''New analysis region added to the map.''])"
    using three by (simp add: finishDrawing_def p_def st'_def Let_def)
  have b: "fst (finish_button now (st, ist)) = (st', handlePolygonCreate p ist)"
    by (simp add: finish_button_def f)
  have c: "length (coordinates p) = 4" "coordinates p ! 0 = coordinates p ! 3"
    "take 3 (coordinates p) = currentPolygon st"
    using three by (simp_all add: p_def nth_append)
  have d: "\<not> isDrawing st'" "currentPolygon st' = []" by (simp_all add: st'_def)
  have e: "polygons (handlePolygonCreate p ist) = polygons ist @ [p]"
    by (simp add: handlePolygonCreate_def)
  show "\<exists>st' p fx. finishDrawing now (polygons ist) st = (st', Some p, fx) \<and>
         fst (finish_button now (st, ist)) = (st', handlePolygonCreate p ist) \<and>
         polygons (handlePolygonCreate p ist) = polygons ist @ [p] \<and>
         length (coordinates p) = 4 \<and>
         coordinates p ! 0 = coordinates p ! 3 \<and>
         take 3 (coordinates p) = currentPolygon st \<and>
         \<not> isDrawing st' \<and> currentPolygon st' = []"
    using f b c d e by blast
qed


theorem finishDrawing_two_and_three_points_witness:
  "length (currentPolygon (sample_drawing [[0, 0], [1, 0]])) = 2 \<and>
   fst (finish_button 1700000000000 (sample_drawing [[0, 0], [1, 0]], empty_index)) =
     (sample_drawing [[0, 0], [1, 0]], empty_index) \<and>
   length (currentPolygon (sample_drawing [[0, 0], [1, 0], [1, 1]])) = 3 \<and>
   map coordinates
     (polygons (snd (fst (finish_button 1700000000000
        (sample_drawing [[0, 0], [1, 0], [1, 1]], empty_index))))) = [sample_ring] \<and>
   map polygon_name
     (polygons (snd (fst (finish_button 1700000000000
        (sample_drawing [[0, 0], [1, 0], [1, 1]], empty_index))))) = [''Region 1''] \<and>
   map polygon_id
     (polygons (snd (fst (finish_button 1700000000000
        (sample_drawing [[0, 0], [1, 0], [1, 1]], empty_index))))) = [''polygon-1700000000000''] \<and>
   \<not> isDrawing (fst (fst (finish_button 1700000000000
        (sample_drawing [[0, 0], [1, 0], [1, 1]], empty_index))))"
  using finishDrawing_two_and_three_points
          [of "sample_drawing [[0, 0], [1, 0]]" 1700000000000 empty_index]
    finishDrawing_two_and_three_points
          [of "sample_drawing [[0, 0], [1, 0], [1, 1]]" 1700000000000 empty_index]
  by (simp add: sample_drawing_def empty_index_def sample_ring_def finish_button_def
        finishDrawing_def handlePolygonCreate_def show_int_def show_nat.simps Let_def)

subsection \<open>The recolor pass\<close>

text \<open>
  C1 (as the code has it). For every polygon the recolor pass takes the color from the
  computed value of the \<open>temperature_2m\<close> field by a fixed ordered rule: below 10 the
  first color, else below 25 the second, else the third. This is the first-match
  evaluation of the temperature source's default threshold list; the polygon's assigned
  data source plays no part in it, and the neutral default is never the result.
\<close>

theorem recolor_uses_fixed_temperature_thresholds:
  "map color (updatePolygonColors single series s e ps) =
     map (\<lambda>p. spec_first_match (threshold_list (availableDataSources ! 0))
                 (avgValue_of single series p s e)) ps \<and>
   map color (updatePolygonColors single series s e ps) =
     map (\<lambda>p. let v = avgValue_of single series p s e
               in if v < 10 then ''#22c55e'' else if v < 25 then ''#f59e0b'' else ''#ef4444'') ps \<and>
   map color (updatePolygonColors single series s e (map (\<lambda>p. p\<lparr>dataSource := ds\<rparr>) ps)) =
     map color (updatePolygonColors single series s e ps) \<and>
   list_all (\<lambda>p. color p \<noteq> spec_neutral_default) (updatePolygonColors single series s e ps)"
  by (auto simp: updatePolygonColors_def spec_first_match_def threshold_list_def
        availableDataSources_def spec_satisfied_def Let_def spec_neutral_default_def
        avgValue_of_def list_all_iff)

theorem recolor_uses_fixed_temperature_thresholds_witness:
  "map color (updatePolygonColors True [sample_point 28 50] 0 0
                [sample_polygon ''relative_humidity_2m'', sample_polygon ''temperature_2m'']) =
     [''#ef4444'', ''#ef4444''] \<and>
   spec_first_match (threshold_list (availableDataSources ! 0)) 28 = ''#ef4444'' \<and>
   map color (updatePolygonColors False sample_series 0 2 [sample_polygon ''temperature_2m'']) =
     [''#22c55e'']"
  using recolor_uses_fixed_temperature_thresholds
          [of True "[sample_point 28 50]" 0 0
              "[sample_polygon ''relative_humidity_2m'', sample_polygon ''temperature_2m'']"]
    recolor_uses_fixed_temperature_thresholds
          [of False sample_series 0 2 "[sample_polygon ''temperature_2m'']"]
  by (simp add: avgValue_of_def getValueAtTime_def getPolygonAverage_def slice_js_def
        sample_series_def sample_point_def sample_polygon_def updatePolygonColors_def
        spec_first_match_def threshold_list_def availableDataSources_def spec_satisfied_def)

text \<open>
  A polygon assigned the humidity source, over a series whose only sample has
  temperature 28: the computed value is 28 and the pass colors the polygon with the
  third color, while the first threshold of the humidity list that 28 satisfies
  (\<open>< 30\<close>) has the first color.
\<close>

theorem recolor_ignores_assigned_source_counterexample:
  "map color (updatePolygonColors True [sample_point 28 50] 0 0
                [sample_polygon ''relative_humidity_2m'']) = [''#ef4444''] \<and>
   avgValue_of True [sample_point 28 50] (sample_polygon ''relative_humidity_2m'') 0 0 = 28 \<and>
   spec_polygon_color availableDataSources (sample_polygon ''relative_humidity_2m'') 28 =
     ''#22c55e''"
  by (simp add: updatePolygonColors_def avgValue_of_def getValueAtTime_def sample_point_def
        sample_polygon_def spec_polygon_color_def availableDataSources_def
        spec_first_match_def threshold_list_def spec_satisfied_def)

subsection \<open>A failed fetch\<close>

text \<open>
  C5. For every call of \<open>fetchWeatherData\<close> that issues the request and whose request
  fails (the fetch is rejected, the status is not 2xx, the payload has no \<open>hourly\<close>
  member or cannot be used), the cache after the call is the cache before it; the
  fallback series becomes the displayed data of this call, the error message is stored
  and shown, loading ends, and every later call behaves as if the failed call had not
  happened.
\<close>

theorem failed_fetch_leaves_cache_unchanged:
  assumes req: "Request (request_url (num_str env) p) \<in> set (snd (fetchWeatherData env p st))"
    and fail: "(\<exists>m. outcome env = Rejected m) \<or>
               (\<exists>status body. outcome env = HttpResponse status body \<and>
                               (status < 200 \<or> 299 < status)) \<or>
               (\<exists>status. outcome env = HttpResponse status NoHourly) \<or>
               (\<exists>status m. outcome env = HttpResponse status (Unusable m))"
  shows "cache (fst (fetchWeatherData env p st)) = cache st \<and>
         data (fst (fetchWeatherData env p st)) = mockData env \<and>
         loading (fst (fetchWeatherData env p st)) = False \<and>
         (\<exists>msg. error (fst (fetchWeatherData env p st)) = Some msg \<and>
                Toast ''Error Loading Weather Data'' msg \<in> set (snd (fetchWeatherData env p st))) \<and>
         (\<forall>env' q. fetchWeatherData env' q (fst (fetchWeatherData env p st)) =
                    fetchWeatherData env' q st)"
proof -
  have "\<exists>err. request_series (outcome env) = Inl err"
    using fail by (auto simp: request_series_def)
  then obtain err where e: "request_series (outcome env) = Inl err" ..
  let ?hit = "cache st (generateCacheKey (num_str env) p) \<noteq> None \<and>
       now_check env - timestamp (the (cache st (generateCacheKey (num_str env) p)))
         < CACHE_DURATION"
  have nohit: "\<not> ?hit"
  proof
    assume ?hit
    then have "snd (fetchWeatherData env p st) =
                 [Toast ''Data Loaded from Cache''
                        ''Using cached weather data for the selected region.'']"
      by (simp add: fetchWeatherData_def Let_def)
    then show False using req by simp
  qed
  define msg where "msg = (case err of Some m \<Rightarrow> m | None \<Rightarrow> ''Failed to fetch weather data'')"
  have r: "fetchWeatherData env p st =
       (st\<lparr>data := mockData env, loading := False, error := Some msg\<rparr>,
        [Request (request_url (num_str env) p),
         Toast ''Error Loading Weather Data'' msg,
         Toast ''Using Mock Data'' ''Switched to simulated weather data for demonstration.''])"
    using nohit e unfolding fetchWeatherData_def Let_def msg_def by simp
  have c: "cache (fst (fetchWeatherData env p st)) = cache st" by (simp add: r)
  have "\<forall>env' q. fetchWeatherData env' q (fst (fetchWeatherData env p st)) =
                  fetchWeatherData env' q st"
    using fetch_reads_cache_only [OF c] by blast
  then show ?thesis using c by (simp add: r)
qed

theorem failed_fetch_leaves_cache_unchanged_witness:
  "outcome (sample_env 0 (HttpResponse 500 NoHourly)) = HttpResponse 500 NoHourly \<and>
   Request (request_url (\<lambda>x. ''0'') (sample_params None))
     \<in> set (snd (fetchWeatherData (sample_env 0 (HttpResponse 500 NoHourly))
                   (sample_params None) empty_hook)) \<and>
   cache (fst (fetchWeatherData (sample_env 0 (HttpResponse 500 NoHourly))
                 (sample_params None) empty_hook)) = Map.empty \<and>
   data (fst (fetchWeatherData (sample_env 0 (HttpResponse 500 NoHourly))
                (sample_params None) empty_hook)) = sample_series \<and>
   error (fst (fetchWeatherData (sample_env 0 (HttpResponse 500 NoHourly))
                 (sample_params None) empty_hook)) = Some ''Weather API error: 500''"
  using failed_fetch_leaves_cache_unchanged
          [of "sample_env 0 (HttpResponse 500 NoHourly)" "sample_params None" empty_hook]
  by (simp add: fetchWeatherData_def request_series_def sample_env_def empty_hook_def
        show_nat.simps Let_def)

subsection \<open>Cache expiry\<close>

text \<open>
  C6. A cache entry is valid exactly while \<open>now - createdAt < TTL\<close>, with a TTL of 30
  minutes. A fetch whose entry is younger than the TTL is answered from the cache with
  no request. A fetch whose entry has age TTL or more (so TTL + 1 ms too) issues the
  request and gives the same data, error and notifications as it gives with the entry
  removed. When the cache is loaded from storage, an entry is kept exactly when its age
  is below the TTL.
\<close>

theorem cache_entry_valid_below_ttl:
  assumes "cache st (generateCacheKey (num_str env) p) = Some e"
  shows "CACHE_DURATION = 30 * 60 * 1000 \<and>
         (now_check env - timestamp e < CACHE_DURATION \<longrightarrow>
           fetchWeatherData env p st =
             (st\<lparr>data := entry_data e, loading := False, error := None\<rparr>,
              [Toast ''Data Loaded from Cache''
                     ''Using cached weather data for the selected region.''])) \<and>
         (now_check env - timestamp e \<ge> CACHE_DURATION \<longrightarrow>
           Request (request_url (num_str env) p) \<in> set (snd (fetchWeatherData env p st)) \<and>
           snd (fetchWeatherData env p st) =
             snd (fetchWeatherData env p
                    (st\<lparr>cache := (cache st)(generateCacheKey (num_str env) p := None)\<rparr>)) \<and>
           data (fst (fetchWeatherData env p st)) =
             data (fst (fetchWeatherData env p
                    (st\<lparr>cache := (cache st)(generateCacheKey (num_str env) p := None)\<rparr>))) \<and>
           error (fst (fetchWeatherData env p st)) =
             error (fst (fetchWeatherData env p
                    (st\<lparr>cache := (cache st)(generateCacheKey (num_str env) p := None)\<rparr>)))) \<and>
         (cache (loadCache now (Some saved) st0) k = Some x \<longleftrightarrow>
            saved k = Some x \<and> now - timestamp x < CACHE_DURATION)"
  using assms
  by (auto simp: fetchWeatherData_def Let_def CACHE_DURATION_def loadCache_def
        split: sum.splits option.splits)

theorem cache_entry_valid_below_ttl_witness:
  "cache (cached_hook 0) (generateCacheKey (\<lambda>x. ''0'') (sample_params None)) =
     Some (sample_entry 0) \<and>
   (1800001::int) - timestamp (sample_entry 0) \<ge> CACHE_DURATION \<and>
   snd (fetchWeatherData (sample_env 1800001 (Rejected None)) (sample_params None) (cached_hook 0)) =
     [Request (request_url (\<lambda>x. ''0'') (sample_params None)),
      Toast ''Error Loading Weather Data'' ''Failed to fetch weather data'',
      Toast ''Using Mock Data'' ''Switched to simulated weather data for demonstration.''] \<and>
   (1799999::int) - timestamp (sample_entry 0) < CACHE_DURATION \<and>
   snd (fetchWeatherData (sample_env 1799999 (Rejected None)) (sample_params None) (cached_hook 0)) =
     [Toast ''Data Loaded from Cache'' ''Using cached weather data for the selected region.''] \<and>
   cache (loadCache 1800001 (Some (cache (cached_hook 0))) empty_hook)
     (generateCacheKey (\<lambda>x. ''0'') (sample_params None)) = None \<and>
   cache (loadCache 1799999 (Some (cache (cached_hook 0))) empty_hook)
     (generateCacheKey (\<lambda>x. ''0'') (sample_params None)) = Some (sample_entry 0)"
  using cache_entry_valid_below_ttl
          [of "cached_hook 0" "sample_env 1800001 (Rejected None)" "sample_params None"
              "sample_entry 0" 1800001 "cache (cached_hook 0)" empty_hook
              "generateCacheKey (\<lambda>x. ''0'') (sample_params None)" "sample_entry 0"]
    cache_entry_valid_below_ttl
          [of "cached_hook 0" "sample_env 1799999 (Rejected None)" "sample_params None"
              "sample_entry 0" 1799999 "cache (cached_hook 0)" empty_hook
              "generateCacheKey (\<lambda>x. ''0'') (sample_params None)" "sample_entry 0"]
  by (simp add: cached_hook_def empty_hook_def sample_env_def sample_entry_def
        CACHE_DURATION_def fetchWeatherData_def request_series_def loadCache_def Let_def)

subsection \<open>Playback\<close>

text \<open>
  C9 (as the code has it). While playback is active, a tick whose advanced edge stays
  below 720 advances start and end by 1 in range mode (so the width is kept), or the
  hour by 1 in instant mode, and playback goes on. A tick whose advanced edge would
  reach 720 leaves the window as it is and pauses playback: playback started with the
  edge at most 719 runs until the edge is 719 and stops there. The window never leaves
  \<open>[0, 720]\<close> under playback ticks.
\<close>

theorem playback_tick_advances_below_last_hour:
  assumes "isPlaying st"
  shows "(snd (window st) + 1 < 720 \<longrightarrow>
            window (tick st) = (fst (window st) + 1, snd (window st) + 1) \<and>
            snd (window (tick st)) - fst (window (tick st)) = snd (window st) - fst (window st) \<and>
            isPlaying (tick st)) \<and>
         (snd (window st) + 1 \<ge> 720 \<longrightarrow>
            window (tick st) = window st \<and> \<not> isPlaying (tick st)) \<and>
         isRangeMode (tick st) = isRangeMode st \<and>
         (snd (window st) \<le> 719 \<longrightarrow>
            window ((tick ^^ (nat (720 - snd (window st)))) st) =
              (fst (window st) + (719 - snd (window st)), 719) \<and>
            \<not> isPlaying ((tick ^^ (nat (720 - snd (window st)))) st)) \<and>
         (0 \<le> fst (window st) \<and> fst (window st) \<le> snd (window st) \<and> snd (window st) \<le> 720 \<longrightarrow>
            (\<forall>n. 0 \<le> fst (window ((tick ^^ n) st)) \<and>
                 fst (window ((tick ^^ n) st)) \<le> snd (window ((tick ^^ n) st)) \<and>
                 snd (window ((tick ^^ n) st)) \<le> 720))"
proof (intro conjI impI allI)
  assume a: "snd (window st) + 1 < 720"
  show "window (tick st) = (fst (window st) + 1, snd (window st) + 1)"
    and "isPlaying (tick st)"
    using tick_advance [OF assms a] by simp_all
  then show "snd (window (tick st)) - fst (window (tick st)) = snd (window st) - fst (window st)"
    by simp
next
  assume a: "720 \<le> snd (window st) + 1"
  show "window (tick st) = window st" and "\<not> isPlaying (tick st)"
    using tick_stop [OF a] by simp_all
next
  show "isRangeMode (tick st) = isRangeMode st" by (rule tick_mode)
next
  assume a: "snd (window st) \<le> 719"
  show "window ((tick ^^ (nat (720 - snd (window st)))) st) =
          (fst (window st) + (719 - snd (window st)), 719)"
    and "\<not> isPlaying ((tick ^^ (nat (720 - snd (window st)))) st)"
    using ticks_stop [OF assms a] by simp_all
next
  fix n
  assume a: "0 \<le> fst (window st) \<and> fst (window st) \<le> snd (window st) \<and> snd (window st) \<le> 720"
  show "0 \<le> fst (window ((tick ^^ n) st))"
    and "fst (window ((tick ^^ n) st)) \<le> snd (window ((tick ^^ n) st))"
    and "snd (window ((tick ^^ n) st)) \<le> 720"
    using ticks_inv [OF a, of n] by simp_all
qed

theorem playback_tick_advances_below_last_hour_witness:
  "isPlaying (playing_slider True 336 384) \<and>
   window (tick (playing_slider True 336 384)) = (337, 385) \<and>
   isPlaying (tick (playing_slider True 336 384)) \<and>
   isPlaying (playing_slider False 719 719) \<and>
   window (tick (playing_slider False 719 719)) = (719, 719) \<and>
   \<not> isPlaying (tick (playing_slider False 719 719)) \<and>
   window ((tick ^^ 336) (playing_slider True 336 384)) = (671, 719) \<and>
   \<not> isPlaying ((tick ^^ 336) (playing_slider True 336 384)) \<and>
   snd (window ((tick ^^ 1000) (playing_slider True 336 384))) \<le> 720"
proof -
  let ?r = "playing_slider True 336 384"
  let ?i = "playing_slider False 719 719"
  have p: "isPlaying ?r" "isPlaying ?i"
    by (simp_all add: playing_slider_def initial_slider_def)
  have w: "window ?r = (336, 384)" "window ?i = (719, 719)"
    by (simp_all add: playing_slider_def initial_slider_def window_def)
  note r = playback_tick_advances_below_last_hour [OF p(1), unfolded w]
  note i = playback_tick_advances_below_last_hour [OF p(2), unfolded w]
  from r i p show ?thesis by simp
qed

text \<open>
  In range mode with the window \<open>(695, 719)\<close> and playback active, a tick does not
  advance the window: it stays \<open>(695, 719)\<close>, the end never becomes 720, and playback
  is paused.
\<close>

theorem playback_last_tick_counterexample:
  "isPlaying (playing_slider True 695 719) \<and>
   isRangeMode (playing_slider True 695 719) \<and>
   rangeValue (playing_slider True 695 719) = (695, 719) \<and>
   rangeValue (tick (playing_slider True 695 719)) = (695, 719) \<and>
   rangeValue (tick (playing_slider True 695 719)) \<noteq> (696, 720) \<and>
   \<not> isPlaying (tick (playing_slider True 695 719))"
  by (simp add: tick_def playing_slider_def initial_slider_def maxHours_def Let_def)

end
